theory Spec2Isabelle
  imports Main "HOL-Library.Multiset"
begin

section \<open>The registration surface of libLLVMTapirOpts (Tapir.cpp)\<close>

subsection \<open>Passes, the host registry and the host pass manager\<close>

text \<open>
  The pass classes Tapir.cpp names, one constructor per class. \<open>HostPass\<close> stands for
  any pass of the host compiler that is not of this library, so that a registry or a
  pipeline may already hold foreign passes when the library is called.
\<close>

datatype pass_id =
    LoopSpawning
  | LoopSpawningTI
  | LowerTapirToTarget
  | AnalyzeTapir
  | TaskSimplify
  | DRFScopedNoAliasWrapperPass
  | LoopStripMine
  | SerializeSmallTasks
  | HostPass string

text \<open>The eight passes of the library, in the order Tapir.cpp initialises them.\<close>

definition tapir_passes :: "pass_id list" where
  "tapir_passes =
     [LoopSpawning, LoopSpawningTI, LowerTapirToTarget, AnalyzeTapir, TaskSimplify,
      DRFScopedNoAliasWrapperPass, LoopStripMine, SerializeSmallTasks]"

text \<open>
  \<open>PassRegistry\<close>: the host's registry, as the passes registered so far in order of
  registration. The C++ functions take it by reference and update it in place; the model
  passes it in and returns it updated.
\<close>

record PassRegistry =
  registered :: "pass_id list"

text \<open>
  Modelled from the spec: the registration primitive of the host's pass-management
  infrastructure, which is not part of Tapir.cpp. The spec (Pass registration protocol):
  "each component registers under a unique name". A pass that is already registered is
  not entered a second time; a new one is entered after those already there.
\<close>

definition registerPass :: "pass_id \<Rightarrow> PassRegistry \<Rightarrow> PassRegistry" where
  "registerPass P Registry =
     (if P \<in> set (registered Registry) then Registry
      else Registry\<lparr>registered := registered Registry @ [P]\<rparr>)"

text \<open>
  Modelled from the spec: the eight \<open>initialize<Name>Pass\<close> functions that Tapir.cpp
  calls. They are declared in the host's InitializePasses.h and defined next to each
  pass, outside Tapir.cpp; each registers the pass of its name with the registry it is
  given.
\<close>

definition initializeLoopSpawningPass :: "PassRegistry \<Rightarrow> PassRegistry" where
  "initializeLoopSpawningPass Registry = registerPass LoopSpawning Registry"

definition initializeLoopSpawningTIPass :: "PassRegistry \<Rightarrow> PassRegistry" where
  "initializeLoopSpawningTIPass Registry = registerPass LoopSpawningTI Registry"

definition initializeLowerTapirToTargetPass :: "PassRegistry \<Rightarrow> PassRegistry" where
  "initializeLowerTapirToTargetPass Registry = registerPass LowerTapirToTarget Registry"

definition initializeAnalyzeTapirPass :: "PassRegistry \<Rightarrow> PassRegistry" where
  "initializeAnalyzeTapirPass Registry = registerPass AnalyzeTapir Registry"

definition initializeTaskSimplifyPass :: "PassRegistry \<Rightarrow> PassRegistry" where
  "initializeTaskSimplifyPass Registry = registerPass TaskSimplify Registry"

definition initializeDRFScopedNoAliasWrapperPassPass :: "PassRegistry \<Rightarrow> PassRegistry" where
  "initializeDRFScopedNoAliasWrapperPassPass Registry =
     registerPass DRFScopedNoAliasWrapperPass Registry"

definition initializeLoopStripMinePass :: "PassRegistry \<Rightarrow> PassRegistry" where
  "initializeLoopStripMinePass Registry = registerPass LoopStripMine Registry"

definition initializeSerializeSmallTasksPass :: "PassRegistry \<Rightarrow> PassRegistry" where
  "initializeSerializeSmallTasksPass Registry = registerPass SerializeSmallTasks Registry"

text \<open>
  \<open>legacy::PassManager\<close>: the pipeline of pass instances in the order they were added.
  A pass instance is modelled by the class it is an instance of.
\<close>

type_synonym Pass = pass_id

record PassManager =
  passes :: "Pass list"

text \<open>
  Modelled from the spec: \<open>PassManager::add\<close> of the host, which is not part of
  Tapir.cpp. The spec (Registration Surface): drivers "add exactly one of these passes to
  a pipeline"; the instance handed over goes to the end of the pipeline.
\<close>

definition PassManager_add :: "Pass \<Rightarrow> PassManager \<Rightarrow> PassManager" where
  "PassManager_add P PM = PM\<lparr>passes := passes PM @ [P]\<rparr>"

text \<open>
  Modelled from the spec: the factories \<open>createLowerTapirToTargetPass\<close> and
  \<open>createLoopSpawningTIPass\<close>, declared in llvm/Transforms/Tapir.h and defined next to
  each pass. The spec (Pass registration protocol): "a factory producing one pass
  instance"; each returns one new instance of the class in its name.
\<close>

definition createLowerTapirToTargetPass :: "Pass" where
  "createLowerTapirToTargetPass = LowerTapirToTarget"

definition createLoopSpawningTIPass :: "Pass" where
  "createLoopSpawningTIPass = LoopSpawningTI"

text \<open>
  The opaque handles of the C API. \<open>unwrap\<close> (a pointer cast in the host's headers)
  gives the C++ object behind a handle; the object is updated in place, so a C entry
  point is modelled as returning the handle of the updated object.
\<close>

datatype LLVMPassRegistryRef = wrap_registry (unwrap_registry: PassRegistry)

datatype LLVMPassManagerRef = wrap_pm (unwrap_pm: PassManager)

subsection \<open>The functions of Tapir.cpp\<close>

text \<open>\<open>llvm::initializeTapirOpts\<close>, lines 28 to 37: eight calls on the same registry.\<close>

definition initializeTapirOpts :: "PassRegistry \<Rightarrow> PassRegistry" where
  "initializeTapirOpts Registry =
     (let R1 = initializeLoopSpawningPass Registry;
          R2 = initializeLoopSpawningTIPass R1;
          R3 = initializeLowerTapirToTargetPass R2;
          R4 = initializeAnalyzeTapirPass R3;
          R5 = initializeTaskSimplifyPass R4;
          R6 = initializeDRFScopedNoAliasWrapperPassPass R5;
          R7 = initializeLoopStripMinePass R6;
          R8 = initializeSerializeSmallTasksPass R7
      in R8)"

text \<open>\<open>LLVMInitializeTapirOpts\<close>, lines 39 to 41.\<close>

definition LLVMInitializeTapirOpts :: "LLVMPassRegistryRef \<Rightarrow> LLVMPassRegistryRef" where
  "LLVMInitializeTapirOpts R = wrap_registry (initializeTapirOpts (unwrap_registry R))"

text \<open>\<open>LLVMAddLowerTapirToTargetPass\<close>, lines 43 to 46.\<close>

definition LLVMAddLowerTapirToTargetPass :: "LLVMPassManagerRef \<Rightarrow> LLVMPassManagerRef" where
  "LLVMAddLowerTapirToTargetPass PM =
     wrap_pm (PassManager_add createLowerTapirToTargetPass (unwrap_pm PM))"

text \<open>\<open>LLVMAddLoopSpawningPass\<close>, lines 48 to 51.\<close>

definition LLVMAddLoopSpawningPass :: "LLVMPassManagerRef \<Rightarrow> LLVMPassManagerRef" where
  "LLVMAddLoopSpawningPass PM =
     wrap_pm (PassManager_add createLoopSpawningTIPass (unwrap_pm PM))"

text \<open>
  The C-linkage entry points of Tapir.cpp that add a pass to a pass manager: the file
  defines these two and no other.
\<close>

definition c_add_entry_points :: "(LLVMPassManagerRef \<Rightarrow> LLVMPassManagerRef) list" where
  "c_add_entry_points = [LLVMAddLowerTapirToTargetPass, LLVMAddLoopSpawningPass]"

text \<open>
  An entry point \<open>w\<close> adds exactly one instance of pass \<open>P\<close> to the manager behind
  \<open>PM\<close>: the pipeline afterwards is the pipeline before with one \<open>P\<close> at its end.
\<close>

definition adds_exactly_one :: "Pass \<Rightarrow> LLVMPassManagerRef \<Rightarrow>
    (LLVMPassManagerRef \<Rightarrow> LLVMPassManagerRef) \<Rightarrow> bool" where
  "adds_exactly_one P PM w = (passes (unwrap_pm (w PM)) = passes (unwrap_pm PM) @ [P])"

text \<open>Some C-linkage entry point of the file adds exactly one instance of \<open>P\<close>.\<close>

definition has_c_entry_point :: "Pass \<Rightarrow> LLVMPassManagerRef \<Rightarrow> bool" where
  "has_c_entry_point P PM = list_ex (adds_exactly_one P PM) c_add_entry_points"

section \<open>Lowering to Target\<close>

text \<open>
  Modelled from the spec: the pass LowerTapirToTarget, of which Tapir.cpp holds only the
  registration and the call of its factory \<open>createLowerTapirToTargetPass\<close>. This
  section models the pass, and the IR it works on, from the spec's overview
  (section 2, item 8), its data model (section 3), its contract for Lowering to Target
  (section 4.7), its external interfaces (section 6) and its design notes (section 9).
\<close>

subsection \<open>The IR: blocks, task constructs, Spawn Sites, the Task Tree\<close>

text \<open>
  Modelled from the spec: the instructions of a block. Only calls into the parallel
  runtime matter to lowering ("calls into the configured Parallel Runtime ABI"); a call
  names the runtime primitive and the blocks it is given. Every other instruction is
  \<open>Compute\<close>.
\<close>

datatype instr = Compute string | RuntimeCall string "nat list"

text \<open>
  Modelled from the spec: the control-flow instruction that ends a block. Blocks are
  "referenced by stable integer indices". \<open>Detach d c\<close> spawns the task that starts at
  block \<open>d\<close> and continues at \<open>c\<close>; \<open>Reattach c\<close> is a task-local completion point;
  \<open>Sync c\<close> is a join point. These three are the Task Region constructs; \<open>Br\<close>,
  \<open>CondBr\<close> and \<open>Ret\<close> are ordinary control flow.
\<close>

datatype terminator =
    Detach nat nat
  | Reattach nat
  | Sync nat
  | Br nat
  | CondBr nat nat
  | Ret

text \<open>
  Modelled from the spec: the Spawn Site, which "carries a reference to its originating
  Task Region and records whether it has already been lowered".
\<close>

record SpawnSite =
  region :: nat
  lowered :: bool

text \<open>
  Modelled from the spec: a basic block of the arena, with the Spawn Site it carries
  when it is one ("the specific instruction/block that becomes a task boundary after
  lowering").
\<close>

record block =
  instrs :: "instr list"
  bterm :: terminator
  site :: "SpawnSite option"

text \<open>
  Modelled from the spec: a Task Region as Task Analysis reports it, "one detach edge
  (spawn point), one or more reattach edges", "association with zero or more sync
  points", and the regions nested in it (the Task Tree: "a region's parent is the
  innermost enclosing region"). Blocks are given by index.
\<close>

datatype task =
  Task (detach_block: nat) (reattach_blocks: "nat list") (sync_blocks: "nat list")
    (subtasks: "task list")

text \<open>
  Modelled from the spec: a function, "an arena of blocks referenced by stable integer
  indices", together with the Task Tree (a forest) that Task Analysis hands to the
  pass; and a module, the functions of a compilation unit.
\<close>

record func =
  blocks :: "block list"
  tasks :: "task list"


text \<open>
  Modelled from the spec: the Parallel Runtime ABI Descriptor, "spawn-call signature,
  argument-packaging convention, join-primitive call signature, and optional cost
  hints". The pass is given \<open>Some\<close> descriptor, or \<open>None\<close>: "absence of this descriptor
  selects the serial fallback lowering strategy".
\<close>

record ABI =
  spawn_call :: string
  packaging :: string
  join_call :: string
  cost_hints :: "nat option"











subsection \<open>The host's IR verifier\<close>





subsection \<open>The pass\<close>

text \<open>
  Modelled from the spec: the rewrite of a detach, "into concrete control flow plus
  calls into the configured Parallel Runtime ABI (or into purely sequential control
  flow if no ABI is configured)". Serially, a detach branches into the task. With a
  runtime, it becomes a call of the spawn primitive on the task's entry block followed
  by a branch to the continuation. A block that does not end in a detach is left as it
  is.
\<close>

definition lower_detach :: "ABI option \<Rightarrow> block \<Rightarrow> block" where
  "lower_detach abi B =
     (case bterm B of
        Detach d c \<Rightarrow>
          (case abi of
             None \<Rightarrow> B\<lparr>bterm := Br d\<rparr>
           | Some a \<Rightarrow> B\<lparr>instrs := instrs B @ [RuntimeCall (spawn_call a) [d]], bterm := Br c\<rparr>)
      | _ \<Rightarrow> B)"

text \<open>
  Modelled from the spec: the rewrite of a reattach, a branch to the continuation when
  lowering to serial code, the task's return when lowering to a runtime.
\<close>

definition lower_reattach :: "ABI option \<Rightarrow> block \<Rightarrow> block" where
  "lower_reattach abi B =
     (case bterm B of
        Reattach c \<Rightarrow>
          (case abi of
             None \<Rightarrow> B\<lparr>bterm := Br c\<rparr>
           | Some a \<Rightarrow> B\<lparr>bterm := Ret\<rparr>)
      | _ \<Rightarrow> B)"

text \<open>
  Modelled from the spec: the rewrite of a sync, a branch to the continuation, after a
  call of the join primitive when lowering to a runtime.
\<close>

definition lower_sync :: "ABI option \<Rightarrow> block \<Rightarrow> block" where
  "lower_sync abi B =
     (case bterm B of
        Sync c \<Rightarrow>
          (case abi of
             None \<Rightarrow> B\<lparr>bterm := Br c\<rparr>
           | Some a \<Rightarrow> B\<lparr>instrs := instrs B @ [RuntimeCall (join_call a) []], bterm := Br c\<rparr>)
      | _ \<Rightarrow> B)"

text \<open>
  Modelled from the spec: an in-place rewrite of block \<open>i\<close> of the arena; an index
  that is not a block of the function changes nothing.
\<close>

definition update_block :: "(block \<Rightarrow> block) \<Rightarrow> nat \<Rightarrow> func \<Rightarrow> func" where
  "update_block g i f =
     (if i < length (blocks f) then f\<lparr>blocks := (blocks f)[i := g (blocks f ! i)]\<rparr> else f)"



text \<open>
  Modelled from the spec: the rewrite of the reattaches at the blocks \<open>rs\<close> and then of
  the syncs at the blocks \<open>ss\<close>.
\<close>

definition rewriteJoins :: "ABI option \<Rightarrow> nat list \<Rightarrow> nat list \<Rightarrow> func \<Rightarrow> func" where
  "rewriteJoins abi rs ss f =
     fold (update_block (lower_sync abi)) ss (fold (update_block (lower_reattach abi)) rs f)"












subsection \<open>Observing a run\<close>





subsection \<open>Example modules\<close>

text \<open>
  The spec's example scenario, the parallel loop \<open>for i in 0..1000: a[i] = f(a[i])\<close>
  with one spawn per iteration: block 0 is the loop header, block 1 the Spawn Site,
  block 2 the task body, block 3 the latch, block 4 the sync at the loop exit.
\<close>

definition example_loop :: func where
  "example_loop = \<lparr>blocks =
     [\<lparr>instrs = [Compute ''i < 1000''], bterm = CondBr 1 4, site = None\<rparr>,
      \<lparr>instrs = [], bterm = Detach 2 3, site = Some \<lparr>region = 0, lowered = False\<rparr>\<rparr>,
      \<lparr>instrs = [Compute ''a[i] = f(a[i])''], bterm = Reattach 3, site = None\<rparr>,
      \<lparr>instrs = [Compute ''i = i + 1''], bterm = Br 0, site = None\<rparr>,
      \<lparr>instrs = [], bterm = Sync 5, site = None\<rparr>,
      \<lparr>instrs = [], bterm = Ret, site = None\<rparr>],
     tasks = [Task 1 [2] [4] []]\<rparr>"











section \<open>Properties of the registration surface\<close>

lemma registered_registerPass:
  "set (registered (registerPass P Registry)) = insert P (set (registered Registry))"
  by (auto simp: registerPass_def)

lemma registered_initializeTapirOpts:
  "set (registered (initializeTapirOpts Registry)) = set tapir_passes \<union> set (registered Registry)"
  unfolding initializeTapirOpts_def Let_def tapir_passes_def
    initializeLoopSpawningPass_def initializeLoopSpawningTIPass_def
    initializeLowerTapirToTargetPass_def initializeAnalyzeTapirPass_def
    initializeTaskSimplifyPass_def initializeDRFScopedNoAliasWrapperPassPass_def
    initializeLoopStripMinePass_def initializeSerializeSmallTasksPass_def
  by (simp only: registered_registerPass) auto

lemma passes_PassManager_add:
  "passes (PassManager_add P PM) = passes PM @ [P]"
  by (simp add: PassManager_add_def)

text \<open>
  C3. \<open>initializeTapirOpts\<close> registers every pass of the pipeline with the registry it
  is given: Task Analysis/Reporting (AnalyzeTapir), Task Simplification, both Loop
  Spawning strategies, Loop Strip-Mining, the DRF scoped no-alias annotation, Small-Task
  Serialization and Lowering to Target are all registered afterwards, and what the
  registry held before is still there.
\<close>

theorem initializeTapirOpts_registers_every_pass:
  "AnalyzeTapir \<in> set (registered (initializeTapirOpts Registry))
   \<and> TaskSimplify \<in> set (registered (initializeTapirOpts Registry))
   \<and> LoopSpawning \<in> set (registered (initializeTapirOpts Registry))
   \<and> LoopSpawningTI \<in> set (registered (initializeTapirOpts Registry))
   \<and> LoopStripMine \<in> set (registered (initializeTapirOpts Registry))
   \<and> DRFScopedNoAliasWrapperPass \<in> set (registered (initializeTapirOpts Registry))
   \<and> SerializeSmallTasks \<in> set (registered (initializeTapirOpts Registry))
   \<and> LowerTapirToTarget \<in> set (registered (initializeTapirOpts Registry))
   \<and> set (registered Registry) \<subseteq> set (registered (initializeTapirOpts Registry))"
  by (auto simp: registered_initializeTapirOpts tapir_passes_def)

text \<open>
  C5, as the spec states it, fails on the code: Task Simplification is a component of
  the pipeline, and neither C-linkage entry point of Tapir.cpp adds an instance of it
  (here to an empty pipeline). The same holds for Task Analysis/Reporting, Loop
  Strip-Mining, the DRF annotation, Small-Task Serialization and the direct Loop
  Spawning pass.
\<close>

theorem no_c_entry_point_for_TaskSimplify:
  "\<not> has_c_entry_point TaskSimplify (wrap_pm \<lparr>passes = []\<rparr>)
   \<and> \<not> has_c_entry_point AnalyzeTapir (wrap_pm \<lparr>passes = []\<rparr>)
   \<and> \<not> has_c_entry_point LoopStripMine (wrap_pm \<lparr>passes = []\<rparr>)
   \<and> \<not> has_c_entry_point DRFScopedNoAliasWrapperPass (wrap_pm \<lparr>passes = []\<rparr>)
   \<and> \<not> has_c_entry_point SerializeSmallTasks (wrap_pm \<lparr>passes = []\<rparr>)
   \<and> \<not> has_c_entry_point LoopSpawning (wrap_pm \<lparr>passes = []\<rparr>)"
  by (simp add: has_c_entry_point_def c_add_entry_points_def adds_exactly_one_def
      LLVMAddLowerTapirToTargetPass_def LLVMAddLoopSpawningPass_def
      passes_PassManager_add createLowerTapirToTargetPass_def createLoopSpawningTIPass_def)

text \<open>
  C5, amended. Tapir.cpp has a C-linkage entry point for Lowering to Target and one for
  Loop Spawning (the target-informed pass); each call to either adds exactly one pass
  instance, of that pass, at the end of the pipeline of the pass manager it is given.
\<close>

theorem c_entry_points_add_exactly_one_pass:
  "has_c_entry_point LowerTapirToTarget PM
   \<and> has_c_entry_point LoopSpawningTI PM
   \<and> passes (unwrap_pm (LLVMAddLowerTapirToTargetPass PM))
       = passes (unwrap_pm PM) @ [LowerTapirToTarget]
   \<and> passes (unwrap_pm (LLVMAddLoopSpawningPass PM))
       = passes (unwrap_pm PM) @ [LoopSpawningTI]
   \<and> length (passes (unwrap_pm (LLVMAddLowerTapirToTargetPass PM)))
       = Suc (length (passes (unwrap_pm PM)))
   \<and> length (passes (unwrap_pm (LLVMAddLoopSpawningPass PM)))
       = Suc (length (passes (unwrap_pm PM)))"
  by (simp add: has_c_entry_point_def c_add_entry_points_def adds_exactly_one_def
      LLVMAddLowerTapirToTargetPass_def LLVMAddLoopSpawningPass_def
      passes_PassManager_add createLowerTapirToTargetPass_def createLoopSpawningTIPass_def)

text \<open>
  C9. For every pass manager, \<open>LLVMAddLoopSpawningPass\<close> adds one instance of the
  target-informed pass LoopSpawningTI and no instance of the direct pass LoopSpawning
  (the number of LoopSpawning instances in the pipeline does not change), although
  \<open>initializeTapirOpts\<close> registers both variants with any registry.
\<close>

theorem LLVMAddLoopSpawningPass_adds_TI_variant:
  "passes (unwrap_pm (LLVMAddLoopSpawningPass PM)) = passes (unwrap_pm PM) @ [LoopSpawningTI]
   \<and> count_list (passes (unwrap_pm (LLVMAddLoopSpawningPass PM))) LoopSpawningTI
       = Suc (count_list (passes (unwrap_pm PM)) LoopSpawningTI)
   \<and> count_list (passes (unwrap_pm (LLVMAddLoopSpawningPass PM))) LoopSpawning
       = count_list (passes (unwrap_pm PM)) LoopSpawning
   \<and> LoopSpawning \<in> set (registered (initializeTapirOpts Registry))
   \<and> LoopSpawningTI \<in> set (registered (initializeTapirOpts Registry))"
  by (simp add: LLVMAddLoopSpawningPass_def passes_PassManager_add
      createLoopSpawningTIPass_def registered_initializeTapirOpts tapir_passes_def)

text \<open>
  C10. For every registry handle, \<open>LLVMInitializeTapirOpts\<close> leaves behind the handle
  exactly the registry that \<open>initializeTapirOpts\<close> returns for the unwrapped registry,
  so the two register the same set of passes; and for every registry, calling the C
  wrapper on its handle is calling the C++ entry point on it.
\<close>

theorem LLVMInitializeTapirOpts_same_as_initializeTapirOpts:
  "unwrap_registry (LLVMInitializeTapirOpts R) = initializeTapirOpts (unwrap_registry R)
   \<and> set (registered (unwrap_registry (LLVMInitializeTapirOpts R)))
       = set (registered (initializeTapirOpts (unwrap_registry R)))
   \<and> unwrap_registry (LLVMInitializeTapirOpts (wrap_registry Registry))
       = initializeTapirOpts Registry"
  by (simp add: LLVMInitializeTapirOpts_def)

section \<open>Properties of Lowering to Target\<close>

subsection \<open>Rewriting one block\<close>

lemma site_lower [simp]:
  "site (lower_detach abi B) = site B"
  "site (lower_reattach abi B) = site B"
  "site (lower_sync abi B) = site B"
  by (auto simp: lower_detach_def lower_reattach_def lower_sync_def
      split: terminator.splits option.splits)






subsection \<open>Rewriting blocks of a function\<close>

lemma length_update_block [simp]:
  "length (blocks (update_block g i f)) = length (blocks f)"
  by (simp add: update_block_def)

lemma tasks_update_block [simp]:
  "tasks (update_block g i f) = tasks f"
  by (simp add: update_block_def)


lemma length_fold_update [simp]:
  "length (blocks (fold (update_block g) js f)) = length (blocks f)"
  by (induction js arbitrary: f) simp_all

lemma tasks_fold_update [simp]:
  "tasks (fold (update_block g) js f) = tasks f"
  by (induction js arbitrary: f) simp_all



lemma length_rewriteJoins [simp]:
  "length (blocks (rewriteJoins abi rs ss f)) = length (blocks f)"
  by (simp add: rewriteJoins_def)







subsection \<open>Lowering a Spawn Site\<close>








subsection \<open>The steps of the pass\<close>











subsection \<open>Runs of steps\<close>










subsection \<open>A run of the pass on a function\<close>









subsection \<open>The regions of the Task Tree\<close>






subsection \<open>Completion\<close>







subsection \<open>A run of the pass on a module\<close>
















subsection \<open>The claims about Lowering to Target\<close>





end
